theory Spec2Isabelle
  imports Complex_Main
begin

section \<open>JavaScript values\<close>

text \<open>
  The echo handler (\<^verbatim>\<open>src/echo-handler.ts\<close>) is a handful of functions over the Fetch
  API objects of the JavaScript runtime. Thrown values are modelled as values of
  \<open>js_error\<close>; a call that may throw returns a sum (\<open>Inl\<close> the thrown value) or an
  option.
\<close>

datatype js_error = TypeError | SyntaxError | StreamError

text \<open>
  A Number is an IEEE double: not-a-number, an infinity, or a finite value, which is a
  rational. The sign of zero is not kept.
\<close>

datatype js_number = NaN | PosInfinity | NegInfinity | Finite rat

text \<open>
  The values \<^verbatim>\<open>JSON.parse\<close> can return, which are also the values the field
  \<^verbatim>\<open>body: unknown\<close> of the snapshot holds. An object is its own string-keyed properties.
\<close>

datatype jsvalue =
    JNull
  | JBool bool
  | JNumber js_number
  | JString string
  | JArray "jsvalue list"
  | JObject "string \<Rightarrow> jsvalue option"

text \<open>
  \<^verbatim>\<open>Record<string, string>\<close> built from the literal \<^verbatim>\<open>{}\<close>: a finite map of own properties.
  The statement \<^verbatim>\<open>obj[key] = value\<close> on such an object creates or overwrites the own
  property \<^verbatim>\<open>key\<close>, with one exception: the object inherits the accessor
  \<^verbatim>\<open>__proto__\<close> from \<^verbatim>\<open>Object.prototype\<close>, whose setter is called instead and which
  ignores a value that is neither an object nor null (ECMAScript,
  \<^verbatim>\<open>set Object.prototype.__proto__\<close>). A string assigned under that key is dropped.
\<close>

type_synonym string_record = "string \<rightharpoonup> string"

definition set_property :: "string_record \<Rightarrow> string \<Rightarrow> string \<Rightarrow> string_record" where
  "set_property obj key v = (if key = ''__proto__'' then obj else obj(key \<mapsto> v))"

text \<open>
  The loops \<^verbatim>\<open>for (const [key, value] of params) { obj[key] = value; }\<close> of
  \<^verbatim>\<open>parseBody\<close> and \<^verbatim>\<open>parseQuery\<close>, and the \<^verbatim>\<open>forEach\<close> of \<^verbatim>\<open>parseHeaders\<close>.
\<close>

fun assign_entries :: "string_record \<Rightarrow> (string \<times> string) list \<Rightarrow> string_record" where
  "assign_entries obj [] = obj"
| "assign_entries obj ((key, v) # entries) = assign_entries (set_property obj key v) entries"

text \<open>\<^verbatim>\<open>s.includes(t)\<close>: \<open>t\<close> occurs in \<open>s\<close> as a contiguous run, case-sensitively.\<close>

fun str_includes :: "string \<Rightarrow> string \<Rightarrow> bool" where
  "str_includes [] t = (t = [])"
| "str_includes (c # s) t = (take (length t) (c # s) = t \<or> str_includes s t)"

text \<open>\<^verbatim>\<open>s?.includes(t)\<close> on a \<^verbatim>\<open>string | null\<close>: \<^verbatim>\<open>undefined\<close>, which is falsy, on null.\<close>

definition optional_includes :: "string option \<Rightarrow> string \<Rightarrow> bool" where
  "optional_includes s t = (case s of None \<Rightarrow> False | Some s' \<Rightarrow> str_includes s' t)"

section \<open>The Fetch API objects the handler reads\<close>

text \<open>
  A \<^verbatim>\<open>Headers\<close> object, as \<^verbatim>\<open>forEach\<close> enumerates it: names lower-cased, the values of
  one name combined. \<^verbatim>\<open>get\<close> is the lookup; every call site passes a lower-case name.
\<close>

type_synonym Headers = "(string \<times> string) list"

definition Headers_get :: "Headers \<Rightarrow> string \<Rightarrow> string option" where
  "Headers_get hs name = map_of hs name"

text \<open>
  The parts of a \<^verbatim>\<open>URL\<close> object the handler reads. \<open>url_search\<close> is the \<^verbatim>\<open>search\<close>
  getter: empty when the URL has no query or an empty one, else \<^verbatim>\<open>?\<close> followed by the
  query as written in the URL.
\<close>

record URL =
  url_hostname :: string
  url_pathname :: string
  url_search :: string

text \<open>
  A \<^verbatim>\<open>Request\<close>. \<open>req_text\<close> is what the body-read operation \<^verbatim>\<open>request.text()\<close> settles
  to: the buffered body text, or the value it rejects with. \<open>req_text_calls\<close> counts the
  invocations of that operation, so that a function that does not touch the body stream
  can be told from one that does.
\<close>

record Request =
  req_method :: string
  req_url :: string
  req_headers :: Headers
  req_text :: "js_error + string"
  req_text_calls :: nat

definition read_text :: "Request \<Rightarrow> (js_error + string) \<times> Request" where
  "read_text req = (req_text req, req\<lparr>req_text_calls := Suc (req_text_calls req)\<rparr>)"

text \<open>Bun's \<^verbatim>\<open>Server\<close>: the binding, and the peer lookup \<^verbatim>\<open>requestIP\<close>.\<close>

record SocketAddress =
  sa_address :: string
  sa_port :: int
  sa_family :: string

record Server =
  srv_hostname :: string
  srv_port :: int
  srv_requestIP :: "Request \<Rightarrow> SocketAddress option"

section \<open>The snapshot (\<^verbatim>\<open>src/types.ts\<close>)\<close>

record EchoRequest =
  method' :: string
  url :: string
  path :: string
  query :: string_record
  headers :: string_record
  body :: jsvalue
  bodyRaw :: "string option"
  contentType :: "string option"
  contentLength :: "js_number option"

record EchoClient =
  ip :: "string option"
  userAgent :: "string option"

record EchoServer =
  hostname :: string
  port :: int

record EchoResponse =
  timestamp :: string
  request :: EchoRequest
  client :: EchoClient
  server :: EchoServer

record Response =
  status :: nat
  resp_headers :: "(string \<times> string) list"
  resp_body :: string

section \<open>The runtime's built-ins\<close>

text \<open>
  The built-ins the handler calls and this development does not define are parameters:
  \<^item> \<open>URL_parse\<close>: \<^verbatim>\<open>new URL(s)\<close>, \<open>None\<close> when it throws;
  \<^item> \<open>JSON_parse\<close>: \<^verbatim>\<open>JSON.parse(s)\<close>, \<open>None\<close> when it throws a SyntaxError;
  \<^item> \<open>JSON_stringify\<close>: \<^verbatim>\<open>JSON.stringify(v, null, 2)\<close> on a snapshot. It throws on cyclic
    structures and BigInt values only, neither of which a snapshot can hold;
  \<^item> \<open>utf8_decode\<close>: the decoding of a byte sequence to a string (invalid sequences become
    U+FFFD). Strings are kept as their UTF-8 bytes, so on valid UTF-8 it is the identity;
  \<^item> \<open>number_value\<close>: the Number for a mathematical integer (rounded to a double);
  \<^item> \<open>Date_toISOString\<close>: \<^verbatim>\<open>new Date().toISOString()\<close> at the time of the call.
\<close>

record runtime =
  URL_parse :: "string \<Rightarrow> URL option"
  JSON_parse :: "string \<Rightarrow> jsvalue option"
  JSON_stringify :: "EchoResponse \<Rightarrow> string"
  utf8_decode :: "string \<Rightarrow> string"
  number_value :: "int \<Rightarrow> js_number"
  Date_toISOString :: string

subsection \<open>\<^verbatim>\<open>URLSearchParams\<close>\<close>

text \<open>
  The \<^verbatim>\<open>application/x-www-form-urlencoded\<close> parser of the URL standard: split at
  \<^verbatim>\<open>&\<close>, skip empty pieces, split each piece at its first \<^verbatim>\<open>=\<close> (no \<^verbatim>\<open>=\<close>: the value
  is empty), turn \<^verbatim>\<open>+\<close> into a space, percent-decode, decode as UTF-8.
\<close>

fun split_on :: "char \<Rightarrow> string \<Rightarrow> string list" where
  "split_on sep [] = [[]]"
| "split_on sep (c # cs) =
     (if c = sep then [] # split_on sep cs
      else (case split_on sep cs of
              [] \<Rightarrow> [[c]]
            | w # ws \<Rightarrow> (c # w) # ws))"

definition hex_digit :: "char \<Rightarrow> nat option" where
  "hex_digit c =
     (let n = (of_char c :: nat) in
      if 48 \<le> n \<and> n \<le> 57 then Some (n - 48)
      else if 65 \<le> n \<and> n \<le> 70 then Some (n - 55)
      else if 97 \<le> n \<and> n \<le> 102 then Some (n - 87)
      else None)"

fun percent_decode :: "string \<Rightarrow> string" where
  "percent_decode (c # h1 # h2 # cs) =
     (if c = CHR ''%'' then
        (case (hex_digit h1, hex_digit h2) of
           (Some a, Some b) \<Rightarrow> char_of (16 * a + b) # percent_decode cs
         | _ \<Rightarrow> c # percent_decode (h1 # h2 # cs))
      else c # percent_decode (h1 # h2 # cs))"
| "percent_decode cs = cs"

definition plus_to_space :: "string \<Rightarrow> string" where
  "plus_to_space s = map (\<lambda>c. if c = CHR ''+'' then CHR '' '' else c) s"

definition decode_component :: "runtime \<Rightarrow> string \<Rightarrow> string" where
  "decode_component rt s = utf8_decode rt (percent_decode (plus_to_space s))"

definition split_pair :: "string \<Rightarrow> string \<times> string" where
  "split_pair bytes =
     (takeWhile (\<lambda>c. c \<noteq> CHR ''='') bytes, drop 1 (dropWhile (\<lambda>c. c \<noteq> CHR ''='') bytes))"

definition urlencoded_parse :: "runtime \<Rightarrow> string \<Rightarrow> (string \<times> string) list" where
  "urlencoded_parse rt input =
     map (\<lambda>bytes. (decode_component rt (fst (split_pair bytes)),
                    decode_component rt (snd (split_pair bytes))))
       (filter (\<lambda>bytes. bytes \<noteq> []) (split_on CHR ''&'' input))"

text \<open>\<^verbatim>\<open>new URLSearchParams(init)\<close> on a string: one leading \<^verbatim>\<open>?\<close> is dropped first.\<close>

definition URLSearchParams :: "runtime \<Rightarrow> string \<Rightarrow> (string \<times> string) list" where
  "URLSearchParams rt init =
     urlencoded_parse rt (case init of c # cs \<Rightarrow> (if c = CHR ''?'' then cs else init) | [] \<Rightarrow> init)"

text \<open>\<^verbatim>\<open>url.searchParams\<close>: the parser applied to the URL's query.\<close>

definition searchParams :: "runtime \<Rightarrow> URL \<Rightarrow> (string \<times> string) list" where
  "searchParams rt u = urlencoded_parse rt (drop 1 (url_search u))"

subsection \<open>The specification's form bodies\<close>

text \<open>
  The specification describes a form body as \<^verbatim>\<open>key=value\<close> pairs joined by \<^verbatim>\<open>&\<close>. This is
  that text for a list of pairs, in the specification's words; it is what the parser above
  is compared with, and no part of the handler.
\<close>

fun spec_joined_pairs :: "(string \<times> string) list \<Rightarrow> string" where
  "spec_joined_pairs [] = []"
| "spec_joined_pairs [(k, v)] = k @ ''='' @ v"
| "spec_joined_pairs ((k, v) # p # ps) = k @ ''='' @ v @ ''&'' @ spec_joined_pairs (p # ps)"

subsection \<open>\<^verbatim>\<open>parseInt(string, 10)\<close>\<close>

text \<open>
  ECMAScript's \<^verbatim>\<open>parseInt\<close> at radix 10, the only radix the handler passes: leading
  white space is skipped, one sign is read, then the longest run of decimal digits; with
  no digit there the result is NaN, and what follows the digits is ignored. The argument
  is a header value, whose characters are single bytes; the white space among them is
  TAB, LF, VT, FF, CR, SP and NBSP.
\<close>

definition is_white_space :: "char \<Rightarrow> bool" where
  "is_white_space c = ((of_char c :: nat) \<in> {9, 10, 11, 12, 13, 32, 160})"

definition is_digit :: "char \<Rightarrow> bool" where
  "is_digit c = (48 \<le> (of_char c :: nat) \<and> (of_char c :: nat) \<le> 57)"

definition digits_value :: "string \<Rightarrow> nat" where
  "digits_value ds = foldl (\<lambda>acc c. 10 * acc + ((of_char c :: nat) - 48)) 0 ds"

definition parseInt :: "runtime \<Rightarrow> string \<Rightarrow> js_number" where
  "parseInt rt string =
     (let S = dropWhile is_white_space string;
          sign = (case S of c # _ \<Rightarrow> (if c = CHR ''-'' then - 1 else 1) | [] \<Rightarrow> (1 :: int));
          S' = (case S of c # cs \<Rightarrow> (if c = CHR ''+'' \<or> c = CHR ''-'' then cs else S) | [] \<Rightarrow> S);
          Z = takeWhile is_digit S'
      in if Z = [] then NaN else number_value rt (sign * int (digits_value Z)))"

section \<open>The handler (\<^verbatim>\<open>src/echo-handler.ts\<close>)\<close>

record BodyResult =
  parsed :: jsvalue
  raw :: "string option"

text \<open>
  \<^verbatim>\<open>parseBody\<close>, lines 4 to 45. The outer \<^verbatim>\<open>try\<close> catches whatever the body read rejects
  with; the inner one catches the SyntaxError of \<^verbatim>\<open>JSON.parse\<close>. The request is returned
  with the reads it has seen.
\<close>

definition parseBody :: "runtime \<Rightarrow> Request \<Rightarrow> BodyResult \<times> Request" where
  "parseBody rt req =
     (let contentType = Headers_get (req_headers req) ''content-type'' in
      if req_method req = ''GET'' \<or> req_method req = ''HEAD'' \<or> req_method req = ''OPTIONS''
      then (\<lparr>parsed = JNull, raw = None\<rparr>, req)
      else
        (case read_text req of
           (Inl thrown, req') \<Rightarrow> (\<lparr>parsed = JNull, raw = None\<rparr>, req')
         | (Inr rawBody, req') \<Rightarrow>
             if rawBody = [] \<or> length rawBody = 0
             then (\<lparr>parsed = JNull, raw = None\<rparr>, req')
             else if optional_includes contentType ''application/json''
             then (case JSON_parse rt rawBody of
                     Some v \<Rightarrow> (\<lparr>parsed = v, raw = Some rawBody\<rparr>, req')
                   | None \<Rightarrow> (\<lparr>parsed = JNull, raw = Some rawBody\<rparr>, req'))
             else if optional_includes contentType ''application/x-www-form-urlencoded''
             then (let formData = assign_entries Map.empty (URLSearchParams rt rawBody)
                   in (\<lparr>parsed = JObject (map_option JString \<circ> formData), raw = Some rawBody\<rparr>, req'))
             else (\<lparr>parsed = JNull, raw = Some rawBody\<rparr>, req')))"

text \<open>\<^verbatim>\<open>parseQuery\<close>, lines 47 to 53, and \<^verbatim>\<open>parseHeaders\<close>, lines 55 to 61.\<close>

definition parseQuery :: "runtime \<Rightarrow> URL \<Rightarrow> string_record" where
  "parseQuery rt u = assign_entries Map.empty (searchParams rt u)"

definition parseHeaders :: "Headers \<Rightarrow> string_record" where
  "parseHeaders hs = assign_entries Map.empty hs"

text \<open>
  \<^verbatim>\<open>createEchoResponse\<close>, lines 63 to 95. \<^verbatim>\<open>new URL(request.url)\<close> stands outside any
  \<^verbatim>\<open>try\<close>: when it throws, the function rejects with the TypeError. A header value is
  truthy when it is a non-empty string.
\<close>

definition createEchoResponse :: "runtime \<Rightarrow> Request \<Rightarrow> Server \<Rightarrow> js_error + EchoResponse" where
  "createEchoResponse rt req srv =
     (case URL_parse rt (req_url req) of
        None \<Rightarrow> Inl TypeError
      | Some u \<Rightarrow>
          (case parseBody rt req of
             (res, req') \<Rightarrow>
               Inr \<lparr>timestamp = Date_toISOString rt,
                    request =
                      \<lparr>method' = req_method req',
                       url = req_url req',
                       path = url_pathname u,
                       query = parseQuery rt u,
                       headers = parseHeaders (req_headers req'),
                       body = parsed res,
                       bodyRaw = raw res,
                       contentType = Headers_get (req_headers req') ''content-type'',
                       contentLength =
                         (case Headers_get (req_headers req') ''content-length'' of
                            None \<Rightarrow> None
                          | Some h \<Rightarrow> (if h = [] then None else Some (parseInt rt h)))\<rparr>,
                    client =
                      \<lparr>ip = (case srv_requestIP srv req' of
                               None \<Rightarrow> None
                             | Some a \<Rightarrow> Some (sa_address a)),
                       userAgent = Headers_get (req_headers req') ''user-agent''\<rparr>,
                    server =
                      \<lparr>hostname = url_hostname u,
                       port = srv_port srv\<rparr>\<rparr>))"

text \<open>\<^verbatim>\<open>handleRequest\<close>, lines 97 to 110.\<close>

definition handleRequest :: "runtime \<Rightarrow> Request \<Rightarrow> Server \<Rightarrow> js_error + Response" where
  "handleRequest rt req srv =
     (case createEchoResponse rt req srv of
        Inl thrown \<Rightarrow> Inl thrown
      | Inr echoResponse \<Rightarrow>
          Inr \<lparr>status = 200,
               resp_headers = [(''Content-Type'', ''application/json''),
                               (''X-Echo-Server'', ''http-echo-server/1.0.0'')],
               resp_body = JSON_stringify rt echoResponse\<rparr>)"

section \<open>Example requests\<close>

text \<open>
  Concrete inputs in the manner of \<^verbatim>\<open>src/echo-handler.test.ts\<close>, on which the theorems
  below are run. The example runtime knows the URLs and JSON texts used here, and agrees
  on them with \<^verbatim>\<open>new URL\<close> and \<^verbatim>\<open>JSON.parse\<close>; its strings are ASCII and its integers
  small, so decoding and rounding change nothing. Its serialiser is a stand-in: no example
  looks at the body of a response.
\<close>

definition example_runtime :: runtime where
  "example_runtime =
     \<lparr>URL_parse = map_of
        [(''http://localhost/test'',
          \<lparr>url_hostname = ''localhost'', url_pathname = ''/test'', url_search = []\<rparr>),
         (''http://localhost:3000/api/data?foo=bar'',
          \<lparr>url_hostname = ''localhost'', url_pathname = ''/api/data'', url_search = ''?foo=bar''\<rparr>)],
      JSON_parse = map_of [(''true'', JBool True), (''null'', JNull)],
      JSON_stringify = timestamp,
      utf8_decode = id,
      number_value = Finite \<circ> of_int,
      Date_toISOString = ''2024-01-15T10:30:00.000Z''\<rparr>"

definition example_server :: Server where
  "example_server =
     \<lparr>srv_hostname = ''0.0.0.0'', srv_port = 3000,
      srv_requestIP = (\<lambda>req. Some \<lparr>sa_address = ''127.0.0.1'', sa_port = 54321, sa_family = ''IPv4''\<rparr>)\<rparr>"

definition test_request :: "string \<Rightarrow> Headers \<Rightarrow> string \<Rightarrow> Request" where
  "test_request m hs t =
     \<lparr>req_method = m, req_url = ''http://localhost/test'', req_headers = hs,
      req_text = Inr t, req_text_calls = 0\<rparr>"

text \<open>
  The request of the README's "Response Structure" example, sent to a server bound to the
  default address \<^verbatim>\<open>0.0.0.0:3000\<close>. The JSON body is shortened to \<^verbatim>\<open>true\<close>.
\<close>

definition readme_request :: Request where
  "readme_request =
     \<lparr>req_method = ''POST'', req_url = ''http://localhost:3000/api/data?foo=bar'',
      req_headers = [(''content-type'', ''application/json''), (''host'', ''localhost:3000''),
                     (''user-agent'', ''curl/8.0.0'')],
      req_text = Inr ''true'', req_text_calls = 0\<rparr>"

section \<open>Basic facts\<close>

text \<open>\<open>str_includes\<close> is the substring relation.\<close>

lemma str_includes_iff: "str_includes s t \<longleftrightarrow> (\<exists>p q. s = p @ t @ q)"
proof (induction s)
  case Nil
  show ?case by auto
next
  case (Cons c s)
  show ?case
  proof
    assume "str_includes (c # s) t"
    then consider "take (length t) (c # s) = t" | "str_includes s t" by auto
    then show "\<exists>p q. c # s = p @ t @ q"
    proof cases
      case 1
      then have "c # s = [] @ t @ drop (length t) (c # s)"
        by (metis append_Nil append_take_drop_id)
      then show ?thesis by blast
    next
      case 2
      then obtain p q where "s = p @ t @ q" using Cons.IH by blast
      then have "c # s = (c # p) @ t @ q" by simp
      then show ?thesis by blast
    qed
  next
    assume "\<exists>p q. c # s = p @ t @ q"
    then obtain p q where pq: "c # s = p @ t @ q" by blast
    show "str_includes (c # s) t"
    proof (cases p)
      case Nil
      with pq have "take (length t) (c # s) = t" by simp
      then show ?thesis by simp
    next
      case (Cons a p')
      with pq have "s = p' @ t @ q" by simp
      then have "str_includes s t" using Cons.IH by blast
      then show ?thesis by simp
    qed
  qed
qed

text \<open>The method gate of \<^verbatim>\<open>parseBody\<close>: the request comes back as it went in.\<close>

lemma parseBody_gated:
  "req_method req = ''GET'' \<or> req_method req = ''HEAD'' \<or> req_method req = ''OPTIONS'' \<Longrightarrow>
   parseBody rt req = (\<lparr>parsed = JNull, raw = None\<rparr>, req)"
  by (simp add: parseBody_def)

section \<open>The method gate\<close>

text \<open>
  Claim C1. For a request whose method is GET, HEAD or OPTIONS, \<^verbatim>\<open>parseBody\<close> returns
  \<^verbatim>\<open>{parsed: null, raw: null}\<close> and hands the request back unchanged: the body-read
  operation has not been invoked, whatever it would have produced. The snapshot built by
  \<^verbatim>\<open>createEchoResponse\<close> then has \<^verbatim>\<open>body\<close> and \<^verbatim>\<open>bodyRaw\<close> null; the function returns a
  snapshot unless \<^verbatim>\<open>new URL(request.url)\<close> throws.
\<close>

theorem parseBody_method_gate:
  assumes "req_method req = ''GET'' \<or> req_method req = ''HEAD'' \<or> req_method req = ''OPTIONS''"
  shows "parseBody rt req = (\<lparr>parsed = JNull, raw = None\<rparr>, req)
    \<and> (case createEchoResponse rt req srv of
         Inl thrown \<Rightarrow> URL_parse rt (req_url req) = None
       | Inr snap \<Rightarrow> body (request snap) = JNull \<and> bodyRaw (request snap) = None)"
proof -
  have gate: "parseBody rt req = (\<lparr>parsed = JNull, raw = None\<rparr>, req)"
    using assms by (rule parseBody_gated)
  show ?thesis
  proof (cases "URL_parse rt (req_url req)")
    case None
    then show ?thesis using gate by (simp add: createEchoResponse_def)
  next
    case (Some u)
    then show ?thesis using gate by (simp add: createEchoResponse_def)
  qed
qed

text \<open>A GET request that carries the body \<^verbatim>\<open>true\<close> with a JSON content type.\<close>

theorem parseBody_method_gate_witness:
  "req_text (test_request ''GET'' [(''content-type'', ''application/json'')] ''true'') = Inr ''true''
   \<and> parseBody example_runtime (test_request ''GET'' [(''content-type'', ''application/json'')] ''true'')
       = (\<lparr>parsed = JNull, raw = None\<rparr>, test_request ''GET'' [(''content-type'', ''application/json'')] ''true'')
   \<and> map_sum id (body \<circ> request) (createEchoResponse example_runtime
        (test_request ''GET'' [(''content-type'', ''application/json'')] ''true'') example_server) = Inr JNull
   \<and> map_sum id (bodyRaw \<circ> request) (createEchoResponse example_runtime
        (test_request ''GET'' [(''content-type'', ''application/json'')] ''true'') example_server) = Inr None"
proof -
  have m: "req_method (test_request ''GET'' [(''content-type'', ''application/json'')] ''true'') = ''GET''"
    by (simp add: test_request_def)
  have u: "URL_parse example_runtime
      (req_url (test_request ''GET'' [(''content-type'', ''application/json'')] ''true'')) \<noteq> None"
    by (simp add: test_request_def example_runtime_def)
  show ?thesis
    using parseBody_method_gate [of "test_request ''GET'' [(''content-type'', ''application/json'')] ''true''"
        example_runtime example_server] m u
    by (auto simp: test_request_def split: sum.splits)
qed

section \<open>Empty bodies\<close>

text \<open>
  Claim C9. Whatever the method, a request whose buffered body text has zero length gets
  \<^verbatim>\<open>{parsed: null, raw: null}\<close> from \<^verbatim>\<open>parseBody\<close>.
\<close>

theorem parseBody_empty_text:
  assumes "req_text req = Inr t" and "length t = 0"
  shows "fst (parseBody rt req) = \<lparr>parsed = JNull, raw = None\<rparr>"
  using assms by (simp add: parseBody_def read_text_def Let_def)

text \<open>The test "handles empty body": a POST with the body \<^verbatim>\<open>""\<close>, and a JSON content type.\<close>

theorem parseBody_empty_text_witness:
  "req_text (test_request ''POST'' [(''content-type'', ''application/json'')] []) = Inr []
   \<and> length ([] :: string) = 0
   \<and> fst (parseBody example_runtime (test_request ''POST'' [(''content-type'', ''application/json'')] []))
       = \<lparr>parsed = JNull, raw = None\<rparr>"
proof -
  have t: "req_text (test_request ''POST'' [(''content-type'', ''application/json'')] []) = Inr []"
    by (simp add: test_request_def)
  show ?thesis
    using parseBody_empty_text [OF t, of example_runtime] t by simp
qed

section \<open>The invariant between \<^verbatim>\<open>body\<close> and \<^verbatim>\<open>bodyRaw\<close>\<close>

text \<open>In every branch of \<^verbatim>\<open>parseBody\<close> a null \<^verbatim>\<open>raw\<close> comes with a null \<^verbatim>\<open>parsed\<close>.\<close>

lemma parseBody_raw_null:
  "raw (fst (parseBody rt req)) = None \<Longrightarrow> parsed (fst (parseBody rt req)) = JNull"
  by (auto simp: parseBody_def read_text_def Let_def split: if_splits sum.splits option.splits)

text \<open>The snapshot takes both fields from the result of \<^verbatim>\<open>parseBody\<close>.\<close>

lemma createEchoResponse_body:
  "createEchoResponse rt req srv = Inr snap \<Longrightarrow>
   body (request snap) = parsed (fst (parseBody rt req))
     \<and> bodyRaw (request snap) = raw (fst (parseBody rt req))"
  by (auto simp: createEchoResponse_def split: option.splits prod.splits)

lemma createEchoResponse_throws:
  "createEchoResponse rt req srv = Inl thrown \<Longrightarrow> URL_parse rt (req_url req) = None"
  by (simp add: createEchoResponse_def split: option.splits prod.splits)

text \<open>
  Claim C5. In every snapshot \<^verbatim>\<open>createEchoResponse\<close> produces, \<^verbatim>\<open>bodyRaw == null\<close> implies
  \<^verbatim>\<open>body == null\<close>, and \<^verbatim>\<open>body != null\<close> implies \<^verbatim>\<open>bodyRaw != null\<close>; the same holds of
  \<^verbatim>\<open>raw\<close> and \<^verbatim>\<open>parsed\<close> in what \<^verbatim>\<open>parseBody\<close> returns, on every branch.
\<close>

theorem bodyRaw_null_implies_body_null:
  "(raw (fst (parseBody rt req)) = None \<longrightarrow> parsed (fst (parseBody rt req)) = JNull)
   \<and> (parsed (fst (parseBody rt req)) \<noteq> JNull \<longrightarrow> raw (fst (parseBody rt req)) \<noteq> None)
   \<and> (case createEchoResponse rt req srv of
        Inl thrown \<Rightarrow> URL_parse rt (req_url req) = None
      | Inr snap \<Rightarrow>
          (bodyRaw (request snap) = None \<longrightarrow> body (request snap) = JNull)
          \<and> (body (request snap) \<noteq> JNull \<longrightarrow> bodyRaw (request snap) \<noteq> None))"
proof -
  have inv: "raw (fst (parseBody rt req)) = None \<longrightarrow> parsed (fst (parseBody rt req)) = JNull"
    using parseBody_raw_null by blast
  show ?thesis
  proof (cases "createEchoResponse rt req srv")
    case (Inl thrown)
    then show ?thesis using inv createEchoResponse_throws by fastforce
  next
    case (Inr snap)
    then show ?thesis using inv createEchoResponse_body [OF Inr] by auto
  qed
qed

text \<open>
  Both directions at work: a HEAD request, whose \<^verbatim>\<open>bodyRaw\<close> is null, and a POST of the
  JSON text \<^verbatim>\<open>true\<close>, whose \<^verbatim>\<open>body\<close> is not.
\<close>

theorem bodyRaw_null_implies_body_null_witness:
  "map_sum id (bodyRaw \<circ> request) (createEchoResponse example_runtime
       (test_request ''HEAD'' [] ''true'') example_server) = Inr None
   \<and> map_sum id (body \<circ> request) (createEchoResponse example_runtime
       (test_request ''HEAD'' [] ''true'') example_server) = Inr JNull
   \<and> map_sum id (body \<circ> request) (createEchoResponse example_runtime
       (test_request ''POST'' [(''content-type'', ''application/json'')] ''true'') example_server)
      = Inr (JBool True)
   \<and> map_sum id (bodyRaw \<circ> request) (createEchoResponse example_runtime
       (test_request ''POST'' [(''content-type'', ''application/json'')] ''true'') example_server)
      \<noteq> Inr None"
proof -
  obtain s1 where s1: "createEchoResponse example_runtime (test_request ''HEAD'' [] ''true'') example_server
      = Inr s1" and r1: "bodyRaw (request s1) = None"
    by (simp add: createEchoResponse_def parseBody_def Let_def test_request_def example_runtime_def)
  obtain s2 where s2: "createEchoResponse example_runtime
      (test_request ''POST'' [(''content-type'', ''application/json'')] ''true'') example_server = Inr s2"
    and b2: "body (request s2) = JBool True"
    by (simp add: createEchoResponse_def parseBody_def Let_def read_text_def test_request_def
        example_runtime_def Headers_get_def optional_includes_def)
  have "body (request s1) = JNull"
    using bodyRaw_null_implies_body_null [of example_runtime "test_request ''HEAD'' [] ''true''"
        example_server] s1 r1 by simp
  moreover have "bodyRaw (request s2) \<noteq> None"
    using bodyRaw_null_implies_body_null [of example_runtime
        "test_request ''POST'' [(''content-type'', ''application/json'')] ''true''" example_server] s2 b2
    by simp
  ultimately show ?thesis using s1 r1 s2 b2 by simp
qed

section \<open>The response\<close>

text \<open>
  Claim C8. For every request that reaches the handler, \<^verbatim>\<open>handleRequest\<close> returns a
  response with status 200 and the headers \<^verbatim>\<open>Content-Type: application/json\<close> and
  \<^verbatim>\<open>X-Echo-Server: http-echo-server/1.0.0\<close>, whose body is the serialised snapshot; nothing
  is thrown, whatever the body read or \<^verbatim>\<open>JSON.parse\<close> do. The \<^verbatim>\<open>url\<close> of a request that
  reaches the handler is the serialisation of a URL, which \<^verbatim>\<open>new URL\<close> accepts: that is the
  hypothesis.
\<close>

theorem handleRequest_status_200:
  assumes "URL_parse rt (req_url req) = Some u"
  shows "\<exists>echoResponse.
           createEchoResponse rt req srv = Inr echoResponse
           \<and> handleRequest rt req srv =
               Inr \<lparr>status = 200,
                    resp_headers = [(''Content-Type'', ''application/json''),
                                    (''X-Echo-Server'', ''http-echo-server/1.0.0'')],
                    resp_body = JSON_stringify rt echoResponse\<rparr>"
  using assms by (simp add: handleRequest_def createEchoResponse_def split: prod.splits)

text \<open>
  A POST whose body read fails, and one whose JSON body does not parse: both are answered
  with status 200.
\<close>

theorem handleRequest_status_200_witness:
  "URL_parse example_runtime ''http://localhost/test''
     = Some \<lparr>url_hostname = ''localhost'', url_pathname = ''/test'', url_search = []\<rparr>
   \<and> map_sum id status (handleRequest example_runtime
        \<lparr>req_method = ''POST'', req_url = ''http://localhost/test'', req_headers = [],
         req_text = Inl StreamError, req_text_calls = 0\<rparr> example_server) = Inr 200
   \<and> map_sum id resp_headers (handleRequest example_runtime
        (test_request ''POST'' [(''content-type'', ''application/json'')] ''invalid json {'')
        example_server)
      = Inr [(''Content-Type'', ''application/json''), (''X-Echo-Server'', ''http-echo-server/1.0.0'')]
   \<and> map_sum id status (handleRequest example_runtime
        (test_request ''POST'' [(''content-type'', ''application/json'')] ''invalid json {'')
        example_server) = Inr 200"
proof -
  have u: "URL_parse example_runtime ''http://localhost/test''
     = Some \<lparr>url_hostname = ''localhost'', url_pathname = ''/test'', url_search = []\<rparr>"
    by (simp add: example_runtime_def)
  have "\<exists>e. handleRequest example_runtime
        \<lparr>req_method = ''POST'', req_url = ''http://localhost/test'', req_headers = [],
         req_text = Inl StreamError, req_text_calls = 0\<rparr> example_server
      = Inr \<lparr>status = 200,
             resp_headers = [(''Content-Type'', ''application/json''),
                             (''X-Echo-Server'', ''http-echo-server/1.0.0'')],
             resp_body = JSON_stringify example_runtime e\<rparr>"
    using handleRequest_status_200 [of example_runtime
        "\<lparr>req_method = ''POST'', req_url = ''http://localhost/test'', req_headers = [],
          req_text = Inl StreamError, req_text_calls = 0\<rparr>" _ example_server] u
    by auto
  moreover have "\<exists>e. handleRequest example_runtime
        (test_request ''POST'' [(''content-type'', ''application/json'')] ''invalid json {'')
        example_server
      = Inr \<lparr>status = 200,
             resp_headers = [(''Content-Type'', ''application/json''),
                             (''X-Echo-Server'', ''http-echo-server/1.0.0'')],
             resp_body = JSON_stringify example_runtime e\<rparr>"
    using handleRequest_status_200 [of example_runtime
        "test_request ''POST'' [(''content-type'', ''application/json'')] ''invalid json {''" _
        example_server] u
    by (auto simp: test_request_def)
  ultimately show ?thesis using u by auto
qed

text \<open>
  The one way \<^verbatim>\<open>handleRequest\<close> rejects is the TypeError of \<^verbatim>\<open>new URL(request.url)\<close>.
\<close>

lemma handleRequest_rejects:
  "handleRequest rt req srv = Inl thrown \<Longrightarrow>
   URL_parse rt (req_url req) = None \<and> thrown = TypeError"
  by (simp add: handleRequest_def createEchoResponse_def split: sum.splits option.splits prod.splits)

section \<open>Content-type dispatch\<close>

text \<open>
  The paths of \<^verbatim>\<open>parseBody\<close> behind the method gate, for a body read that yields a
  non-empty text.
\<close>

lemma parseBody_json_branch:
  assumes "req_method req \<noteq> ''GET''" and "req_method req \<noteq> ''HEAD''" and "req_method req \<noteq> ''OPTIONS''"
    and "req_text req = Inr t" and "t \<noteq> []"
    and "optional_includes (Headers_get (req_headers req) ''content-type'') ''application/json''"
  shows "fst (parseBody rt req) =
           (case JSON_parse rt t of
              Some v \<Rightarrow> \<lparr>parsed = v, raw = Some t\<rparr>
            | None \<Rightarrow> \<lparr>parsed = JNull, raw = Some t\<rparr>)"
  using assms by (simp add: parseBody_def read_text_def Let_def split: option.splits)

lemma parseBody_form_branch:
  assumes "req_method req \<noteq> ''GET''" and "req_method req \<noteq> ''HEAD''" and "req_method req \<noteq> ''OPTIONS''"
    and "req_text req = Inr t" and "t \<noteq> []"
    and "\<not> optional_includes (Headers_get (req_headers req) ''content-type'') ''application/json''"
    and "optional_includes (Headers_get (req_headers req) ''content-type'')
           ''application/x-www-form-urlencoded''"
  shows "fst (parseBody rt req) =
           \<lparr>parsed = JObject (map_option JString \<circ> assign_entries Map.empty (URLSearchParams rt t)),
            raw = Some t\<rparr>"
  using assms by (simp add: parseBody_def read_text_def Let_def)

text \<open>
  The assignment loop is last-write-wins on every key but \<^verbatim>\<open>__proto__\<close>, which it never
  sets.
\<close>

lemma assign_entries_lookup:
  "k \<noteq> ''__proto__'' \<Longrightarrow>
   assign_entries obj entries k =
     (case map_of (rev entries) k of Some v \<Rightarrow> Some v | None \<Rightarrow> obj k)"
  by (induction obj entries rule: assign_entries.induct)
    (auto simp: set_property_def split: option.splits)

lemma assign_entries_proto: "assign_entries obj entries ''__proto__'' = obj ''__proto__''"
  by (induction obj entries rule: assign_entries.induct) (auto simp: set_property_def)

subsection \<open>JSON bodies\<close>

text \<open>
  Claim C2, as stated: for every request with a non-empty body whose content type contains
  \<^verbatim>\<open>application/json\<close>, \<^verbatim>\<open>raw\<close> is the body text and \<^verbatim>\<open>parsed\<close> the decoded value (null
  when the text is not JSON). It fails behind the method gate: a HEAD request whose body
  is the JSON text \<^verbatim>\<open>true\<close> gets \<^verbatim>\<open>{parsed: null, raw: null}\<close>.
\<close>

theorem parseBody_json_gated_counterexample:
  "req_text (test_request ''HEAD'' [(''content-type'', ''application/json'')] ''true'') = Inr ''true''
   \<and> Headers_get (req_headers (test_request ''HEAD'' [(''content-type'', ''application/json'')] ''true''))
        ''content-type'' = Some ''application/json''
   \<and> JSON_parse example_runtime ''true'' = Some (JBool True)
   \<and> fst (parseBody example_runtime (test_request ''HEAD'' [(''content-type'', ''application/json'')] ''true''))
        = \<lparr>parsed = JNull, raw = None\<rparr>
   \<and> fst (parseBody example_runtime (test_request ''HEAD'' [(''content-type'', ''application/json'')] ''true''))
        \<noteq> \<lparr>parsed = JBool True, raw = Some ''true''\<rparr>"
  by (simp add: parseBody_def test_request_def example_runtime_def Headers_get_def)

text \<open>
  Claim C2, amended: for every request whose method is not GET, HEAD or OPTIONS, whose
  body read yields a non-empty text and whose content type contains \<^verbatim>\<open>application/json\<close>:
  when \<^verbatim>\<open>JSON.parse\<close> accepts the text, \<^verbatim>\<open>parsed\<close> is the value it returns and \<^verbatim>\<open>raw\<close> the
  text; when it throws, \<^verbatim>\<open>parsed\<close> is null and \<^verbatim>\<open>raw\<close> the text. Nothing is thrown.
\<close>

theorem parseBody_json_content_type:
  assumes "req_method req \<noteq> ''GET''" and "req_method req \<noteq> ''HEAD''" and "req_method req \<noteq> ''OPTIONS''"
    and "req_text req = Inr t" and "t \<noteq> []"
    and "Headers_get (req_headers req) ''content-type'' = Some (p @ ''application/json'' @ q)"
  shows "fst (parseBody rt req) =
           (case JSON_parse rt t of
              Some v \<Rightarrow> \<lparr>parsed = v, raw = Some t\<rparr>
            | None \<Rightarrow> \<lparr>parsed = JNull, raw = Some t\<rparr>)"
proof -
  have "str_includes (p @ ''application/json'' @ q) ''application/json''"
    unfolding str_includes_iff by blast
  then have "optional_includes (Headers_get (req_headers req) ''content-type'') ''application/json''"
    using assms(6) by (simp add: optional_includes_def)
  then show ?thesis
    using assms(1-5) by (rule parseBody_json_branch [rotated 5])
qed

text \<open>
  The tests "parses JSON body correctly" and "handles invalid JSON gracefully", the first
  with the JSON text \<^verbatim>\<open>true\<close> and a charset parameter after the media type.
\<close>

theorem parseBody_json_content_type_witness:
  "fst (parseBody example_runtime
      (test_request ''POST'' [(''content-type'', ''application/json; charset=utf-8'')] ''true''))
     = \<lparr>parsed = JBool True, raw = Some ''true''\<rparr>
   \<and> fst (parseBody example_runtime
      (test_request ''POST'' [(''content-type'', ''application/json'')] ''invalid json {''))
     = \<lparr>parsed = JNull, raw = Some ''invalid json {''\<rparr>"
proof -
  have "fst (parseBody example_runtime
      (test_request ''POST'' [(''content-type'', ''application/json; charset=utf-8'')] ''true''))
     = (case JSON_parse example_runtime ''true'' of
          Some v \<Rightarrow> \<lparr>parsed = v, raw = Some ''true''\<rparr>
        | None \<Rightarrow> \<lparr>parsed = JNull, raw = Some ''true''\<rparr>)"
    by (rule parseBody_json_content_type [where p = "[]" and q = "''; charset=utf-8''"])
      (simp_all add: test_request_def Headers_get_def)
  moreover have "fst (parseBody example_runtime
      (test_request ''POST'' [(''content-type'', ''application/json'')] ''invalid json {''))
     = (case JSON_parse example_runtime ''invalid json {'' of
          Some v \<Rightarrow> \<lparr>parsed = v, raw = Some ''invalid json {''\<rparr>
        | None \<Rightarrow> \<lparr>parsed = JNull, raw = Some ''invalid json {''\<rparr>)"
    by (rule parseBody_json_content_type [where p = "[]" and q = "[]"])
      (simp_all add: test_request_def Headers_get_def)
  ultimately show ?thesis by (simp add: example_runtime_def)
qed

subsection \<open>A content type that names both formats\<close>

text \<open>
  Claim C10, as stated: for any non-empty body whose content type contains both
  \<^verbatim>\<open>application/json\<close> and \<^verbatim>\<open>application/x-www-form-urlencoded\<close>, the body is interpreted as
  JSON. Behind the method gate it is not interpreted at all: an OPTIONS request with such
  a content type and the JSON body \<^verbatim>\<open>true\<close> gets \<^verbatim>\<open>{parsed: null, raw: null}\<close>.
\<close>

theorem parseBody_both_types_gated_counterexample:
  "str_includes ''application/json, application/x-www-form-urlencoded'' ''application/json''
   \<and> str_includes ''application/json, application/x-www-form-urlencoded''
        ''application/x-www-form-urlencoded''
   \<and> req_text (test_request ''OPTIONS''
        [(''content-type'', ''application/json, application/x-www-form-urlencoded'')] ''true'')
      = Inr ''true''
   \<and> JSON_parse example_runtime ''true'' = Some (JBool True)
   \<and> fst (parseBody example_runtime (test_request ''OPTIONS''
        [(''content-type'', ''application/json, application/x-www-form-urlencoded'')] ''true''))
      = \<lparr>parsed = JNull, raw = None\<rparr>
   \<and> fst (parseBody example_runtime (test_request ''OPTIONS''
        [(''content-type'', ''application/json, application/x-www-form-urlencoded'')] ''true''))
      \<noteq> \<lparr>parsed = JBool True, raw = Some ''true''\<rparr>"
  by (simp add: parseBody_def test_request_def example_runtime_def)

text \<open>
  Claim C10, amended: the dispatch tests for \<^verbatim>\<open>application/json\<close> first, so for every
  request whose method is not GET, HEAD or OPTIONS, whose body read yields a non-empty text
  and whose content type contains both substrings, the result is that of the JSON branch:
  the value of \<^verbatim>\<open>JSON.parse\<close> with the text as \<^verbatim>\<open>raw\<close>, or null with the text as \<^verbatim>\<open>raw\<close> when
  it throws. The form-urlencoded branch is not taken.
\<close>

theorem parseBody_json_before_form:
  assumes "req_method req \<noteq> ''GET''" and "req_method req \<noteq> ''HEAD''" and "req_method req \<noteq> ''OPTIONS''"
    and "req_text req = Inr t" and "t \<noteq> []"
    and "Headers_get (req_headers req) ''content-type'' = Some ct"
    and "str_includes ct ''application/json''"
    and "str_includes ct ''application/x-www-form-urlencoded''"
  shows "fst (parseBody rt req) =
           (case JSON_parse rt t of
              Some v \<Rightarrow> \<lparr>parsed = v, raw = Some t\<rparr>
            | None \<Rightarrow> \<lparr>parsed = JNull, raw = Some t\<rparr>)"
proof -
  have "optional_includes (Headers_get (req_headers req) ''content-type'') ''application/json''"
    using assms(6,7) by (simp add: optional_includes_def)
  then show ?thesis
    using assms(1-5) by (rule parseBody_json_branch [rotated 5])
qed

text \<open>
  The body \<^verbatim>\<open>a=1\<close> is not JSON and would decode as a form: with both substrings in the
  content type, \<^verbatim>\<open>parsed\<close> is null, not the mapping.
\<close>

theorem parseBody_json_before_form_witness:
  "str_includes ''application/json, application/x-www-form-urlencoded'' ''application/json''
   \<and> str_includes ''application/json, application/x-www-form-urlencoded''
        ''application/x-www-form-urlencoded''
   \<and> URLSearchParams example_runtime ''a=1'' = [(''a'', ''1'')]
   \<and> fst (parseBody example_runtime (test_request ''POST''
        [(''content-type'', ''application/json, application/x-www-form-urlencoded'')] ''a=1''))
      = \<lparr>parsed = JNull, raw = Some ''a=1''\<rparr>"
proof -
  have j: "str_includes ''application/json, application/x-www-form-urlencoded'' ''application/json''"
    by simp
  have f: "str_includes ''application/json, application/x-www-form-urlencoded''
        ''application/x-www-form-urlencoded''"
    by simp
  have ps: "URLSearchParams example_runtime ''a=1'' = [(''a'', ''1'')]"
    by code_simp
  have "fst (parseBody example_runtime (test_request ''POST''
        [(''content-type'', ''application/json, application/x-www-form-urlencoded'')] ''a=1''))
      = (case JSON_parse example_runtime ''a=1'' of
           Some v \<Rightarrow> \<lparr>parsed = v, raw = Some ''a=1''\<rparr>
         | None \<Rightarrow> \<lparr>parsed = JNull, raw = Some ''a=1''\<rparr>)"
    by (rule parseBody_json_before_form [OF _ _ _ _ _ _ j f])
      (simp_all add: test_request_def Headers_get_def)
  then show ?thesis using j f ps by (simp add: example_runtime_def)
qed

subsection \<open>The decoder on pairs joined by \<^verbatim>\<open>&\<close>\<close>

text \<open>
  On the text the specification describes, \<^verbatim>\<open>key=value\<close> pairs joined by \<^verbatim>\<open>&\<close> with no
  \<^verbatim>\<open>&\<close> inside a key or a value and no \<^verbatim>\<open>=\<close> inside a key, the parser returns the pairs in
  order, each side decoded. Decoding leaves a string without \<^verbatim>\<open>+\<close> and \<^verbatim>\<open>%\<close> as it is, up
  to the UTF-8 decoding, and turns a percent escape into its byte.
\<close>

lemma split_on_no_sep: "sep \<notin> set a \<Longrightarrow> split_on sep a = [a]"
  by (induction a) auto

lemma split_on_sep: "sep \<notin> set a \<Longrightarrow> split_on sep (a @ sep # rest) = a # split_on sep rest"
  by (induction a) auto

lemma split_pair_joined: "CHR ''='' \<notin> set k \<Longrightarrow> split_pair (k @ ''='' @ v) = (k, v)"
  by (induction k) (auto simp: split_pair_def)

lemma split_on_joined_pairs:
  assumes "\<forall>(k, v) \<in> set ps. CHR ''&'' \<notin> set k \<and> CHR ''&'' \<notin> set v"
  shows "filter (\<lambda>bytes. bytes \<noteq> []) (split_on CHR ''&'' (spec_joined_pairs ps))
           = map (\<lambda>(k, v). k @ ''='' @ v) ps"
  using assms
proof (induction ps rule: spec_joined_pairs.induct)
  case 1
  show ?case by simp
next
  case (2 k v)
  then have "CHR ''&'' \<notin> set (k @ ''='' @ v)" by simp
  then show ?case by (simp add: split_on_no_sep del: append.simps)
next
  case (3 k v p ps)
  have a: "CHR ''&'' \<notin> set (k @ ''='' @ v)" using 3(2) by simp
  have "spec_joined_pairs ((k, v) # p # ps)
      = (k @ ''='' @ v) @ CHR ''&'' # spec_joined_pairs (p # ps)"
    by simp
  then have "split_on CHR ''&'' (spec_joined_pairs ((k, v) # p # ps))
      = (k @ ''='' @ v) # split_on CHR ''&'' (spec_joined_pairs (p # ps))"
    using split_on_sep [OF a] by simp
  then show ?case using 3 by simp
qed

lemma urlencoded_parse_joined_pairs:
  assumes "\<forall>(k, v) \<in> set ps. CHR ''&'' \<notin> set k \<and> CHR ''='' \<notin> set k \<and> CHR ''&'' \<notin> set v"
  shows "urlencoded_parse rt (spec_joined_pairs ps)
           = map (\<lambda>(k, v). (decode_component rt k, decode_component rt v)) ps"
proof -
  have "filter (\<lambda>bytes. bytes \<noteq> []) (split_on CHR ''&'' (spec_joined_pairs ps))
           = map (\<lambda>(k, v). k @ ''='' @ v) ps"
    using assms by (intro split_on_joined_pairs) auto
  then show ?thesis
    using assms by (auto simp: urlencoded_parse_def split_pair_joined simp del: append.simps)
qed

lemma percent_decode_plain: "CHR ''%'' \<notin> set s \<Longrightarrow> percent_decode s = s"
  by (induction s rule: percent_decode.induct) auto

lemma plus_to_space_plain: "CHR ''+'' \<notin> set s \<Longrightarrow> plus_to_space s = s"
  by (induction s) (auto simp: plus_to_space_def)

lemma percent_decode_escape:
  "hex_digit h1 = Some a \<Longrightarrow> hex_digit h2 = Some b \<Longrightarrow>
   percent_decode (CHR ''%'' # h1 # h2 # s) = char_of (16 * a + b) # percent_decode s"
  by simp

subsection \<open>Form bodies\<close>

text \<open>
  Claim C6, as stated: for every request with a non-empty body whose content type contains
  \<^verbatim>\<open>application/x-www-form-urlencoded\<close>, \<^verbatim>\<open>parsed\<close> is the mapping decoded from the body.
  It fails when the content type also contains \<^verbatim>\<open>application/json\<close>, which is tested
  first: for a POST of \<^verbatim>\<open>name=test&value=123\<close> whose content type names both, the text is
  not JSON and \<^verbatim>\<open>parsed\<close> is null.
\<close>

theorem parseBody_form_counterexample:
  "str_includes ''application/x-www-form-urlencoded, application/json''
     ''application/x-www-form-urlencoded''
   \<and> req_method (test_request ''POST''
        [(''content-type'', ''application/x-www-form-urlencoded, application/json'')]
        ''name=test&value=123'') = ''POST''
   \<and> req_text (test_request ''POST''
        [(''content-type'', ''application/x-www-form-urlencoded, application/json'')]
        ''name=test&value=123'') = Inr ''name=test&value=123''
   \<and> URLSearchParams example_runtime ''name=test&value=123''
      = [(''name'', ''test''), (''value'', ''123'')]
   \<and> fst (parseBody example_runtime (test_request ''POST''
        [(''content-type'', ''application/x-www-form-urlencoded, application/json'')]
        ''name=test&value=123''))
      = \<lparr>parsed = JNull, raw = Some ''name=test&value=123''\<rparr>
   \<and> parsed (fst (parseBody example_runtime (test_request ''POST''
        [(''content-type'', ''application/x-www-form-urlencoded, application/json'')]
        ''name=test&value=123'')))
      \<noteq> JObject (map_option JString \<circ> map_of [(''name'', ''test''), (''value'', ''123'')])"
proof -
  have ps: "URLSearchParams example_runtime ''name=test&value=123''
      = [(''name'', ''test''), (''value'', ''123'')]"
    by code_simp
  have res: "fst (parseBody example_runtime (test_request ''POST''
        [(''content-type'', ''application/x-www-form-urlencoded, application/json'')]
        ''name=test&value=123''))
      = \<lparr>parsed = JNull, raw = Some ''name=test&value=123''\<rparr>"
    by (simp add: parseBody_def read_text_def Let_def test_request_def example_runtime_def
        Headers_get_def optional_includes_def)
  show ?thesis
    unfolding res using ps by (simp add: test_request_def)
qed

text \<open>
  Claim C6, amended: for every request whose method is not GET, HEAD or OPTIONS, whose body
  read yields a non-empty text and whose content type contains
  \<^verbatim>\<open>application/x-www-form-urlencoded\<close> and not \<^verbatim>\<open>application/json\<close>, \<^verbatim>\<open>raw\<close> is the text and
  \<^verbatim>\<open>parsed\<close> is an object that gives every key other than \<^verbatim>\<open>__proto__\<close> the value of its
  last occurrence among the pairs of \<^verbatim>\<open>new URLSearchParams(text)\<close>, and no value to a key
  that does not occur. Those pairs are the pieces of the text between \<^verbatim>\<open>&\<close>, a leading
  \<^verbatim>\<open>?\<close> and empty pieces dropped, each split at its first \<^verbatim>\<open>=\<close>, with \<^verbatim>\<open>+\<close> read as a space
  and percent escapes decoded.
\<close>

theorem parseBody_form_urlencoded:
  assumes "req_method req \<noteq> ''GET''" and "req_method req \<noteq> ''HEAD''" and "req_method req \<noteq> ''OPTIONS''"
    and "req_text req = Inr t" and "t \<noteq> []"
    and "Headers_get (req_headers req) ''content-type''
           = Some (p @ ''application/x-www-form-urlencoded'' @ q)"
    and "\<not> str_includes (p @ ''application/x-www-form-urlencoded'' @ q) ''application/json''"
  shows "\<exists>obj. fst (parseBody rt req) = \<lparr>parsed = JObject obj, raw = Some t\<rparr>
           \<and> (\<forall>k. k \<noteq> ''__proto__'' \<longrightarrow>
                 obj k = map_option JString (map_of (rev (URLSearchParams rt t)) k))"
proof -
  have "str_includes (p @ ''application/x-www-form-urlencoded'' @ q)
          ''application/x-www-form-urlencoded''"
    unfolding str_includes_iff by blast
  then have form: "optional_includes (Headers_get (req_headers req) ''content-type'')
          ''application/x-www-form-urlencoded''"
    using assms(6) by (simp add: optional_includes_def)
  have json: "\<not> optional_includes (Headers_get (req_headers req) ''content-type'') ''application/json''"
    using assms(6,7) by (simp add: optional_includes_def)
  have res: "fst (parseBody rt req) =
      \<lparr>parsed = JObject (map_option JString \<circ> assign_entries Map.empty (URLSearchParams rt t)),
       raw = Some t\<rparr>"
    using assms(1-5) json form by (rule parseBody_form_branch)
  have "(map_option JString \<circ> assign_entries Map.empty (URLSearchParams rt t)) k
          = map_option JString (map_of (rev (URLSearchParams rt t)) k)"
    if "k \<noteq> ''__proto__''" for k
    using assign_entries_lookup [OF that, of Map.empty "URLSearchParams rt t"]
    by (simp split: option.splits)
  then show ?thesis using res by blast
qed

text \<open>
  The test "parses form-urlencoded body correctly", with a repeated key, a \<^verbatim>\<open>+\<close> and a
  percent escape added: the later \<^verbatim>\<open>name\<close> wins.
\<close>

theorem parseBody_form_urlencoded_witness:
  "URLSearchParams example_runtime ''name=test&value=123&name=a+b%26''
     = [(''name'', ''test''), (''value'', ''123''), (''name'', ''a b&'')]
   \<and> (\<exists>obj. fst (parseBody example_runtime (test_request ''POST''
          [(''content-type'', ''application/x-www-form-urlencoded'')] ''name=test&value=123&name=a+b%26''))
        = \<lparr>parsed = JObject obj, raw = Some ''name=test&value=123&name=a+b%26''\<rparr>
      \<and> obj ''name'' = Some (JString ''a b&'')
      \<and> obj ''value'' = Some (JString ''123'')
      \<and> obj ''other'' = None)"
proof -
  have ps: "URLSearchParams example_runtime ''name=test&value=123&name=a+b%26''
     = [(''name'', ''test''), (''value'', ''123''), (''name'', ''a b&'')]"
    by code_simp
  have nj: "\<not> str_includes ([] @ ''application/x-www-form-urlencoded'' @ []) ''application/json''"
    by simp
  obtain obj where res: "fst (parseBody example_runtime (test_request ''POST''
          [(''content-type'', ''application/x-www-form-urlencoded'')] ''name=test&value=123&name=a+b%26''))
        = \<lparr>parsed = JObject obj, raw = Some ''name=test&value=123&name=a+b%26''\<rparr>"
    and look: "\<forall>k. k \<noteq> ''__proto__'' \<longrightarrow> obj k = map_option JString
        (map_of (rev (URLSearchParams example_runtime ''name=test&value=123&name=a+b%26'')) k)"
    using parseBody_form_urlencoded [of "test_request ''POST''
          [(''content-type'', ''application/x-www-form-urlencoded'')] ''name=test&value=123&name=a+b%26''"
        "''name=test&value=123&name=a+b%26''" "[]" "[]" example_runtime] nj
    by (auto simp: test_request_def Headers_get_def)
  have "obj ''name'' = Some (JString ''a b&'')" and "obj ''value'' = Some (JString ''123'')"
    and "obj ''other'' = None"
    using look unfolding ps by simp_all
  then show ?thesis using ps res by blast
qed

section \<open>The declared content length\<close>

text \<open>A digit is neither white space nor a sign.\<close>

lemma is_digit_not_white_space: "is_digit c \<Longrightarrow> \<not> is_white_space c"
  by (auto simp: is_digit_def is_white_space_def)

lemma is_digit_not_sign: "is_digit c \<Longrightarrow> c \<noteq> CHR ''+'' \<and> c \<noteq> CHR ''-''"
  by (auto simp: is_digit_def)

text \<open>
  What \<^verbatim>\<open>parseInt\<close> reads: white space, an optional sign, and a run of digits that ends
  the string or stops at a character that is not a digit.
\<close>

lemma parseInt_decimal:
  assumes ws: "list_all is_white_space ws"
    and sg: "sg = [] \<or> sg = ''+'' \<or> sg = ''-''"
    and ds: "ds \<noteq> []" "list_all is_digit ds"
    and rest: "takeWhile is_digit rest = []"
  shows "parseInt rt (ws @ sg @ ds @ rest)
           = number_value rt ((if sg = ''-'' then - 1 else 1) * int (digits_value ds))"
proof -
  obtain d ds' where d: "ds = d # ds'" using ds(1) by (cases ds) auto
  then have dd: "is_digit d" using ds(2) by simp
  have tw: "takeWhile is_digit (ds @ rest) = ds"
    using ds(2) rest by (simp add: takeWhile_append2 list_all_iff)
  have "\<not> is_white_space (hd (sg @ ds @ rest))"
    using sg dd d is_digit_not_white_space by (auto simp: is_white_space_def)
  moreover have "sg @ ds @ rest \<noteq> []" using ds(1) by simp
  ultimately have "dropWhile is_white_space (sg @ ds @ rest) = sg @ ds @ rest"
    by (cases "sg @ ds @ rest") auto
  then have dw: "dropWhile is_white_space (ws @ sg @ ds @ rest) = sg @ ds @ rest"
    using ws by (simp add: dropWhile_append2 list_all_iff)
  from sg consider "sg = []" | "sg = ''+''" | "sg = ''-''" by blast
  then show ?thesis
  proof cases
    case 1
    have "parseInt rt (ws @ sg @ ds @ rest) = parseInt rt (ws @ d # ds' @ rest)"
      using 1 d by simp
    moreover have "dropWhile is_white_space (ws @ d # ds' @ rest) = d # ds' @ rest"
      using dw 1 d by simp
    moreover have "takeWhile is_digit (d # ds' @ rest) = ds" using tw d by simp
    ultimately show ?thesis
      using 1 ds(1) is_digit_not_sign [OF dd] by (simp add: parseInt_def Let_def)
  next
    case 2
    have "dropWhile is_white_space (ws @ CHR ''+'' # ds @ rest) = CHR ''+'' # ds @ rest"
      using dw 2 by simp
    then show ?thesis using 2 tw ds(1) by (simp add: parseInt_def Let_def)
  next
    case 3
    have "dropWhile is_white_space (ws @ CHR ''-'' # ds @ rest) = CHR ''-'' # ds @ rest"
      using dw 3 by simp
    then show ?thesis using 3 tw ds(1) by (simp add: parseInt_def Let_def)
  qed
qed

text \<open>
  When no digit stands where \<^verbatim>\<open>parseInt\<close> looks for one, that is after the white space and
  the sign it has read, the result is NaN: so for \<^verbatim>\<open>abc\<close>, \<^verbatim>\<open>-x\<close>, \<^verbatim>\<open>+-5\<close> and a lone sign.
  The white space \<open>ws\<close> is all there is at the front, and without a sign the remainder
  does not start with one.
\<close>

lemma parseInt_no_digit:
  assumes ws: "list_all is_white_space ws"
    and front: "takeWhile is_white_space (sg @ rest) = []"
    and sg: "sg = ''+'' \<or> sg = ''-''
             \<or> sg = [] \<and> takeWhile (\<lambda>c. c = CHR ''+'' \<or> c = CHR ''-'') rest = []"
    and rest: "takeWhile is_digit rest = []"
  shows "parseInt rt (ws @ sg @ rest) = NaN"
proof -
  have "dropWhile is_white_space (sg @ rest) = sg @ rest"
    using front by (cases "sg @ rest") (auto split: if_splits)
  then have dw: "dropWhile is_white_space (ws @ sg @ rest) = sg @ rest"
    using ws by (simp add: dropWhile_append2 list_all_iff)
  from sg consider "sg = ''+''" | "sg = ''-''"
    | "sg = []" "takeWhile (\<lambda>c. c = CHR ''+'' \<or> c = CHR ''-'') rest = []"
    by blast
  then show ?thesis
  proof cases
    case 1
    show ?thesis unfolding parseInt_def Let_def dw using 1 rest by simp
  next
    case 2
    show ?thesis unfolding parseInt_def Let_def dw using 2 rest by simp
  next
    case 3
    show ?thesis
      unfolding parseInt_def Let_def dw using 3 rest
      by (cases rest) (auto split: if_splits)
  qed
qed

text \<open>
  Every string is of one of the two shapes, so the two lemmas say what \<^verbatim>\<open>parseInt\<close>
  returns on every header value.
\<close>

lemma parseInt_shapes:
  "\<exists>ws sg ds rest.
     h = ws @ sg @ ds @ rest
     \<and> list_all is_white_space ws \<and> list_all is_digit ds \<and> takeWhile is_digit rest = []
     \<and> (ds \<noteq> [] \<and> (sg = [] \<or> sg = ''+'' \<or> sg = ''-'')
        \<or> ds = [] \<and> takeWhile is_white_space (sg @ rest) = []
          \<and> (sg = ''+'' \<or> sg = ''-''
             \<or> sg = [] \<and> takeWhile (\<lambda>c. c = CHR ''+'' \<or> c = CHR ''-'') rest = []))"
proof -
  define ws where "ws = takeWhile is_white_space h"
  define S where "S = dropWhile is_white_space h"
  define sg where "sg = (case S of [] \<Rightarrow> [] | c # cs \<Rightarrow> (if c = CHR ''+'' \<or> c = CHR ''-'' then [c] else []))"
  define S' where "S' = (case S of [] \<Rightarrow> [] | c # cs \<Rightarrow> (if c = CHR ''+'' \<or> c = CHR ''-'' then cs else S))"
  define ds where "ds = takeWhile is_digit S'"
  define rest where "rest = dropWhile is_digit S'"
  have h: "h = ws @ S" by (simp add: ws_def S_def)
  have S: "S = sg @ S'" by (auto simp: sg_def S'_def split: list.splits)
  have S'': "S' = ds @ rest" by (simp add: ds_def rest_def)
  have sgs: "sg = [] \<or> sg = ''+'' \<or> sg = ''-''"
    by (auto simp: sg_def split: list.splits)
  have nosign: "takeWhile (\<lambda>c. c = CHR ''+'' \<or> c = CHR ''-'') S' = []" if "sg = []"
    using that by (auto simp: sg_def S'_def split: list.splits if_splits)
  have front: "takeWhile is_white_space S = []"
    unfolding S_def by (induction h) auto
  have "h = ws @ sg @ ds @ rest" using h S S'' by simp
  moreover have "list_all is_white_space ws"
    unfolding ws_def list_all_iff by (auto dest: set_takeWhileD)
  moreover have "list_all is_digit ds"
    unfolding ds_def list_all_iff by (auto dest: set_takeWhileD)
  moreover have "takeWhile is_digit rest = []"
    unfolding rest_def by (induction S') auto
  moreover have "takeWhile is_white_space (sg @ rest) = []" if "ds = []"
    using that front S S'' by simp
  moreover have "takeWhile (\<lambda>c. c = CHR ''+'' \<or> c = CHR ''-'') rest = []" if "ds = []" "sg = []"
    using that nosign S'' by simp
  ultimately show ?thesis using sgs by blast
qed

text \<open>\<^verbatim>\<open>parseBody\<close> leaves the headers of the request alone.\<close>

lemma parseBody_headers: "req_headers (snd (parseBody rt req)) = req_headers req"
  by (simp add: parseBody_def read_text_def Let_def split: sum.splits option.splits)

text \<open>Lines 82 to 84: null for an absent or empty header, else what \<^verbatim>\<open>parseInt\<close> returns.\<close>

lemma createEchoResponse_contentLength:
  assumes "URL_parse rt (req_url req) = Some u"
  shows "\<exists>snap. createEchoResponse rt req srv = Inr snap
           \<and> contentLength (request snap) =
               (case Headers_get (req_headers req) ''content-length'' of
                  None \<Rightarrow> None
                | Some h \<Rightarrow> (if h = [] then None else Some (parseInt rt h)))"
proof -
  obtain res req' where p: "parseBody rt req = (res, req')" by (cases "parseBody rt req")
  then have "req_headers req' = req_headers req"
    using parseBody_headers [of rt req] by simp
  then show ?thesis using assms p by (simp add: createEchoResponse_def)
qed

text \<open>
  The part of claim C3 the code keeps: \<^verbatim>\<open>request.contentLength\<close> is null for an absent or
  empty header, and for a header that writes a decimal integer it is the Number of that
  integer. A header without a digit gives NaN.
\<close>

lemma contentLength_absent:
  assumes "URL_parse rt (req_url req) = Some u"
    and "Headers_get (req_headers req) ''content-length'' = None
         \<or> Headers_get (req_headers req) ''content-length'' = Some []"
  shows "\<exists>snap. createEchoResponse rt req srv = Inr snap \<and> contentLength (request snap) = None"
  using createEchoResponse_contentLength [OF assms(1), of srv] assms(2) by auto

lemma contentLength_decimal:
  assumes "URL_parse rt (req_url req) = Some u"
    and "Headers_get (req_headers req) ''content-length'' = Some (ws @ sg @ ds @ rest)"
    and "list_all is_white_space ws" and "sg = [] \<or> sg = ''+'' \<or> sg = ''-''"
    and "ds \<noteq> []" and "list_all is_digit ds" and "takeWhile is_digit rest = []"
  shows "\<exists>snap. createEchoResponse rt req srv = Inr snap
           \<and> contentLength (request snap)
               = Some (number_value rt ((if sg = ''-'' then - 1 else 1) * int (digits_value ds)))"
  using createEchoResponse_contentLength [OF assms(1), of srv] assms(2,5)
    parseInt_decimal [OF assms(3,4,5,6,7), of rt]
  by auto

lemma contentLength_no_digit:
  assumes "URL_parse rt (req_url req) = Some u"
    and "Headers_get (req_headers req) ''content-length'' = Some (ws @ sg @ rest)"
    and "ws @ sg @ rest \<noteq> []"
    and "list_all is_white_space ws" and "takeWhile is_white_space (sg @ rest) = []"
    and "sg = ''+'' \<or> sg = ''-''
         \<or> sg = [] \<and> takeWhile (\<lambda>c. c = CHR ''+'' \<or> c = CHR ''-'') rest = []"
    and "takeWhile is_digit rest = []"
  shows "\<exists>snap. createEchoResponse rt req srv = Inr snap \<and> contentLength (request snap) = Some NaN"
  using createEchoResponse_contentLength [OF assms(1), of srv] assms(2,3)
    parseInt_no_digit [OF assms(4,5,6,7), of rt]
  by auto

lemma contentLength_examples:
  "digits_value ''27'' = 27"
  "map_sum id (contentLength \<circ> request) (createEchoResponse example_runtime
        (test_request ''POST'' [(''content-length'', ''27'')] ''true'') example_server)
      = Inr (Some (Finite 27))"
  "map_sum id (contentLength \<circ> request) (createEchoResponse example_runtime
        (test_request ''POST'' [(''content-length'', [])] ''true'') example_server)
      = Inr None"
proof -
  have u: "URL_parse example_runtime (req_url (test_request m hs t))
      = Some \<lparr>url_hostname = ''localhost'', url_pathname = ''/test'', url_search = []\<rparr>" for m hs t
    by (simp add: test_request_def example_runtime_def)
  show v27: "digits_value ''27'' = 27"
    by (simp add: digits_value_def)
  have "\<exists>snap. createEchoResponse example_runtime
        (test_request ''POST'' [(''content-length'', ''27'')] ''true'') example_server = Inr snap
      \<and> contentLength (request snap)
          = Some (number_value example_runtime
              ((if ([] :: string) = ''-'' then - 1 else 1) * int (digits_value ''27'')))"
    by (rule contentLength_decimal [OF u, where ws = "[]" and rest = "[]"])
      (simp_all add: test_request_def Headers_get_def is_digit_def)
  then show "map_sum id (contentLength \<circ> request) (createEchoResponse example_runtime
        (test_request ''POST'' [(''content-length'', ''27'')] ''true'') example_server)
      = Inr (Some (Finite 27))"
    using v27 by (auto simp: example_runtime_def)
  have "\<exists>snap. createEchoResponse example_runtime
        (test_request ''POST'' [(''content-length'', [])] ''true'') example_server = Inr snap
      \<and> contentLength (request snap) = None"
    by (rule contentLength_absent [OF u]) (simp add: test_request_def Headers_get_def)
  then show "map_sum id (contentLength \<circ> request) (createEchoResponse example_runtime
        (test_request ''POST'' [(''content-length'', [])] ''true'') example_server)
      = Inr None"
    by auto
qed

text \<open>
  Claim C3 says that \<^verbatim>\<open>request.contentLength\<close> is null when the content-length header is
  absent and when its value is not numeric. For an absent header it is: the test of lines
  82 to 84 gives null. A value that is not numeric passes that test and goes to
  \<^verbatim>\<open>parseInt\<close>, whose NaN is stored as it is: for the header values \<^verbatim>\<open>abc\<close>, \<^verbatim>\<open>-x\<close> and
  \<^verbatim>\<open>+-5\<close> the snapshot holds the number NaN where the claim says null.
\<close>

theorem contentLength_not_numeric_is_NaN:
  "map_sum id (contentLength \<circ> request) (createEchoResponse example_runtime
        (test_request ''POST'' [] ''true'') example_server)
      = Inr None
   \<and> map_sum id (contentLength \<circ> request) (createEchoResponse example_runtime
        (test_request ''POST'' [(''content-length'', ''abc'')] ''true'') example_server)
      = Inr (Some NaN)
   \<and> map_sum id (contentLength \<circ> request) (createEchoResponse example_runtime
        (test_request ''POST'' [(''content-length'', ''-x'')] ''true'') example_server)
      = Inr (Some NaN)
   \<and> map_sum id (contentLength \<circ> request) (createEchoResponse example_runtime
        (test_request ''POST'' [(''content-length'', ''+-5'')] ''true'') example_server)
      = Inr (Some NaN)"
proof -
  have u: "URL_parse example_runtime (req_url (test_request m hs t))
      = Some \<lparr>url_hostname = ''localhost'', url_pathname = ''/test'', url_search = []\<rparr>" for m hs t
    by (simp add: test_request_def example_runtime_def)
  have len: "map_sum id (contentLength \<circ> request) (createEchoResponse example_runtime
        (test_request ''POST'' hs ''true'') example_server)
      = Inr (case Headers_get hs ''content-length'' of
               None \<Rightarrow> None
             | Some h \<Rightarrow> (if h = [] then None else Some (parseInt example_runtime h)))" for hs
    using createEchoResponse_contentLength [OF u, of "''POST''" hs "''true''" example_server]
    by (auto simp: test_request_def)
  have 1: "parseInt example_runtime ''abc'' = NaN"
    using parseInt_no_digit [of "[]" "[]" "''abc''" example_runtime]
    by (simp add: is_white_space_def is_digit_def)
  have 2: "parseInt example_runtime ''-x'' = NaN"
    using parseInt_no_digit [of "[]" "''-''" "''x''" example_runtime]
    by (simp add: is_white_space_def is_digit_def)
  have 3: "parseInt example_runtime ''+-5'' = NaN"
    using parseInt_no_digit [of "[]" "''+''" "''-5''" example_runtime]
    by (simp add: is_white_space_def is_digit_def)
  show ?thesis
    unfolding len using 1 2 3 by (simp add: Headers_get_def)
qed

section \<open>The server identity\<close>

text \<open>
  In every snapshot the port is the server's, and the host name is the one of the request's
  URL.
\<close>

lemma createEchoResponse_server:
  assumes "URL_parse rt (req_url req) = Some u"
  shows "\<exists>snap. createEchoResponse rt req srv = Inr snap
           \<and> hostname (server snap) = url_hostname u
           \<and> port (server snap) = srv_port srv"
  using assms by (simp add: createEchoResponse_def split: prod.splits)

text \<open>
  Claim C4 says that \<^verbatim>\<open>server.hostname\<close> and \<^verbatim>\<open>server.port\<close> are the binding identity the
  server context supplies, and are not taken from the request's URL. The port is
  (\<^verbatim>\<open>server.port\<close>, line 92); the host name is \<^verbatim>\<open>url.hostname\<close> (line 91). For the request
  of the README's example, sent to a server bound to \<^verbatim>\<open>0.0.0.0\<close>, the snapshot says
  \<^verbatim>\<open>localhost\<close> where the README shows \<^verbatim>\<open>0.0.0.0\<close>.
\<close>

theorem server_hostname_is_url_hostname:
  "srv_hostname example_server = ''0.0.0.0''
   \<and> srv_port example_server = 3000
   \<and> map_sum id (hostname \<circ> server)
        (createEchoResponse example_runtime readme_request example_server) = Inr ''localhost''
   \<and> map_sum id (port \<circ> server)
        (createEchoResponse example_runtime readme_request example_server) = Inr 3000"
proof -
  have "URL_parse example_runtime (req_url readme_request)
      = Some \<lparr>url_hostname = ''localhost'', url_pathname = ''/api/data'', url_search = ''?foo=bar''\<rparr>"
    by (simp add: readme_request_def example_runtime_def)
  from createEchoResponse_server [OF this, of example_server]
  show ?thesis by (auto simp: example_server_def)
qed

section \<open>The query mapping\<close>

text \<open>
  \<^verbatim>\<open>parseQuery\<close> is last-write-wins on every key but \<^verbatim>\<open>__proto__\<close>, and gives the empty
  mapping for a URL without a query.
\<close>

lemma parseQuery_last_write_wins:
  "k \<noteq> ''__proto__'' \<Longrightarrow> parseQuery rt u k = map_of (rev (searchParams rt u)) k"
  using assign_entries_lookup [of k Map.empty "searchParams rt u"]
  by (simp add: parseQuery_def split: option.splits)

lemma parseQuery_no_query: "url_search u = [] \<Longrightarrow> parseQuery rt u = Map.empty"
  by (simp add: parseQuery_def searchParams_def urlencoded_parse_def)

text \<open>The queries of the tests and of the specification's examples.\<close>

lemma parseQuery_examples:
  "parseQuery example_runtime
     \<lparr>url_hostname = ''localhost'', url_pathname = ''/test'', url_search = ''?foo=bar&baz=qux''\<rparr>
     = (map_of [(''foo'', ''bar''), (''baz'', ''qux'')])"
  "parseQuery example_runtime
     \<lparr>url_hostname = ''localhost'', url_pathname = ''/test'',
      url_search = ''?message=hello%20world&symbol=%26''\<rparr>
     = (map_of [(''message'', ''hello world''), (''symbol'', ''&'')])"
  "parseQuery example_runtime
     \<lparr>url_hostname = ''localhost'', url_pathname = ''/test'', url_search = ''?a=1&a=2''\<rparr>
     = (map_of [(''a'', ''2'')])"
proof -
  have 1: "searchParams example_runtime
     \<lparr>url_hostname = ''localhost'', url_pathname = ''/test'', url_search = ''?foo=bar&baz=qux''\<rparr>
     = [(''foo'', ''bar''), (''baz'', ''qux'')]"
    by code_simp
  have 2: "searchParams example_runtime
     \<lparr>url_hostname = ''localhost'', url_pathname = ''/test'',
      url_search = ''?message=hello%20world&symbol=%26''\<rparr>
     = [(''message'', ''hello world''), (''symbol'', ''&'')]"
    by code_simp
  have 3: "searchParams example_runtime
     \<lparr>url_hostname = ''localhost'', url_pathname = ''/test'', url_search = ''?a=1&a=2''\<rparr>
     = [(''a'', ''1''), (''a'', ''2'')]"
    by code_simp
  show "parseQuery example_runtime
     \<lparr>url_hostname = ''localhost'', url_pathname = ''/test'', url_search = ''?foo=bar&baz=qux''\<rparr>
     = (map_of [(''foo'', ''bar''), (''baz'', ''qux'')])"
    unfolding parseQuery_def 1 by (auto simp: set_property_def)
  show "parseQuery example_runtime
     \<lparr>url_hostname = ''localhost'', url_pathname = ''/test'',
      url_search = ''?message=hello%20world&symbol=%26''\<rparr>
     = (map_of [(''message'', ''hello world''), (''symbol'', ''&'')])"
    unfolding parseQuery_def 2 by (auto simp: set_property_def)
  show "parseQuery example_runtime
     \<lparr>url_hostname = ''localhost'', url_pathname = ''/test'', url_search = ''?a=1&a=2''\<rparr>
     = (map_of [(''a'', ''2'')])"
    unfolding parseQuery_def 3 by (auto simp: set_property_def)
qed

text \<open>
  Claim C7 says that, for every URL, \<^verbatim>\<open>parseQuery\<close> puts the decoded parameters into the
  mapping, the last occurrence of a key winning. For the query \<^verbatim>\<open>?__proto__=x&a=1\<close> the
  parameter list holds both pairs, and the mapping returned has no entry for
  \<^verbatim>\<open>__proto__\<close>: the assignment \<^verbatim>\<open>query[key] = value\<close> of line 50 reaches the inherited
  setter, which drops the string.
\<close>

theorem parseQuery_drops_proto_key:
  "searchParams example_runtime
     \<lparr>url_hostname = ''localhost'', url_pathname = ''/test'', url_search = ''?__proto__=x&a=1''\<rparr>
     = [(''__proto__'', ''x''), (''a'', ''1'')]
   \<and> parseQuery example_runtime
     \<lparr>url_hostname = ''localhost'', url_pathname = ''/test'', url_search = ''?__proto__=x&a=1''\<rparr>
     ''__proto__'' = None
   \<and> parseQuery example_runtime
     \<lparr>url_hostname = ''localhost'', url_pathname = ''/test'', url_search = ''?__proto__=x&a=1''\<rparr>
     ''a'' = Some ''1''"
proof -
  have ps: "searchParams example_runtime
     \<lparr>url_hostname = ''localhost'', url_pathname = ''/test'', url_search = ''?__proto__=x&a=1''\<rparr>
     = [(''__proto__'', ''x''), (''a'', ''1'')]"
    by code_simp
  show ?thesis
    unfolding parseQuery_def ps by (simp add: set_property_def)
qed

end
